theory Spec2Isabelle
  imports Complex_Main "HOL-Library.Multiset"
begin

section \<open>JavaScript numbers\<close>

text \<open>
  Every number of the program (\<^verbatim>\<open>watts\<close>, \<^verbatim>\<open>hours\<close>, \<^verbatim>\<open>kWh\<close>, the total, the
  percentage) is a JavaScript Number, an IEEE 754 binary64 value. A finite value is kept
  as the rational it denotes; every arithmetic operation computes the exact rational
  result and rounds it to the nearest binary64 value, ties to even, as the language
  prescribes. The sign of zero is not tracked: the program never divides by a computed
  value, so it cannot observe it.
\<close>

datatype jsnum = NaN | PosInf | NegInf | Fin rat

definition pow2 :: "int \<Rightarrow> rat" where
  "pow2 k = (if 0 \<le> k then 2 ^ nat k else 1 / 2 ^ nat (- k))"

text \<open>\<open>ilog2 n\<close> is the position of the leading bit of \<open>n\<close>, for \<open>n \<ge> 1\<close>.\<close>

function ilog2 :: "int \<Rightarrow> int" where
  "ilog2 n = (if n < 2 then 0 else 1 + ilog2 (n div 2))"
  by pat_completeness auto
termination
  by (relation "measure nat") auto

declare ilog2.simps [simp del]

text \<open>The binary exponent \<open>e\<close> of a positive rational: \<open>2 ^ e \<le> x < 2 ^ (e + 1)\<close>.\<close>

definition exponent_of :: "rat \<Rightarrow> int" where
  "exponent_of x =
     (if 1 \<le> x then ilog2 \<lfloor>x\<rfloor>
      else - ilog2 (\<lceil>1 / x\<rceil> - 1) - 1)"

definition round_half_even :: "rat \<Rightarrow> int" where
  "round_half_even x =
     (let f = \<lfloor>x\<rfloor>; d = x - of_int f
      in if d < 1 / 2 then f else if 1 / 2 < d then f + 1
         else if even f then f else f + 1)"

text \<open>
  Rounding a positive rational: 53 significant bits, the spacing never finer than
  \<open>2 ^ - 1074\<close> (subnormal numbers), overflow to infinity from \<open>2 ^ 1024\<close>.
\<close>

definition round_pos :: "rat \<Rightarrow> jsnum" where
  "round_pos x =
     (let k = max (exponent_of x - 52) (- 1074);
          y = of_int (round_half_even (x / pow2 k)) * pow2 k
      in if 2 ^ 1024 \<le> y then PosInf else Fin y)"

fun fneg :: "jsnum \<Rightarrow> jsnum" where
  "fneg NaN = NaN"
| "fneg PosInf = NegInf"
| "fneg NegInf = PosInf"
| "fneg (Fin x) = Fin (- x)"

definition rnd :: "rat \<Rightarrow> jsnum" where
  "rnd x = (if x = 0 then Fin 0 else if 0 < x then round_pos x else fneg (round_pos (- x)))"

text \<open>The operators \<^verbatim>\<open>+\<close>, \<^verbatim>\<open>*\<close>, \<^verbatim>\<open>/\<close> and \<^verbatim>\<open><=\<close> on Numbers.\<close>

fun fadd :: "jsnum \<Rightarrow> jsnum \<Rightarrow> jsnum" where
  "fadd NaN _ = NaN"
| "fadd _ NaN = NaN"
| "fadd PosInf NegInf = NaN"
| "fadd NegInf PosInf = NaN"
| "fadd PosInf _ = PosInf"
| "fadd _ PosInf = PosInf"
| "fadd NegInf _ = NegInf"
| "fadd _ NegInf = NegInf"
| "fadd (Fin a) (Fin b) = rnd (a + b)"

fun fmul :: "jsnum \<Rightarrow> jsnum \<Rightarrow> jsnum" where
  "fmul NaN _ = NaN"
| "fmul _ NaN = NaN"
| "fmul PosInf PosInf = PosInf"
| "fmul PosInf NegInf = NegInf"
| "fmul NegInf PosInf = NegInf"
| "fmul NegInf NegInf = PosInf"
| "fmul PosInf (Fin b) = (if b = 0 then NaN else if 0 < b then PosInf else NegInf)"
| "fmul NegInf (Fin b) = (if b = 0 then NaN else if 0 < b then NegInf else PosInf)"
| "fmul (Fin a) PosInf = (if a = 0 then NaN else if 0 < a then PosInf else NegInf)"
| "fmul (Fin a) NegInf = (if a = 0 then NaN else if 0 < a then NegInf else PosInf)"
| "fmul (Fin a) (Fin b) = rnd (a * b)"

text \<open>Division; a zero divisor is read as \<open>+0\<close> (the program divides by 1000 and 30 only).\<close>

fun fdiv :: "jsnum \<Rightarrow> jsnum \<Rightarrow> jsnum" where
  "fdiv NaN _ = NaN"
| "fdiv _ NaN = NaN"
| "fdiv PosInf PosInf = NaN"
| "fdiv PosInf NegInf = NaN"
| "fdiv NegInf PosInf = NaN"
| "fdiv NegInf NegInf = NaN"
| "fdiv PosInf (Fin b) = (if b < 0 then NegInf else PosInf)"
| "fdiv NegInf (Fin b) = (if b < 0 then PosInf else NegInf)"
| "fdiv (Fin a) PosInf = Fin 0"
| "fdiv (Fin a) NegInf = Fin 0"
| "fdiv (Fin a) (Fin b) =
     (if b = 0 then (if a = 0 then NaN else if 0 < a then PosInf else NegInf)
      else rnd (a / b))"

fun fle :: "jsnum \<Rightarrow> jsnum \<Rightarrow> bool" where
  "fle NaN _ = False"
| "fle _ NaN = False"
| "fle NegInf _ = True"
| "fle _ PosInf = True"
| "fle PosInf _ = False"
| "fle _ NegInf = False"
| "fle (Fin a) (Fin b) = (a \<le> b)"

section \<open>parseInt and parseFloat\<close>

text \<open>
  The form fields hold what the number inputs report (\<^verbatim>\<open>e.target.value\<close>, a string) or a
  Number set by the program (150, 24, a wattage of the catalogue), which
  \<^verbatim>\<open>parseInt\<close> and \<^verbatim>\<open>parseFloat\<close> first convert to its decimal string. A field is
  therefore a string. Strings are ASCII; white space is the ASCII white space.
\<close>

definition is_ws :: "char \<Rightarrow> bool" where
  "is_ws c = (of_char c \<in> {9, 10, 11, 12, 13, 32 :: int})"

definition is_digit :: "char \<Rightarrow> bool" where
  "is_digit c = (48 \<le> (of_char c :: int) \<and> (of_char c :: int) \<le> 57)"

definition digit_val :: "char \<Rightarrow> int" where
  "digit_val c = of_char c - 48"

fun digits_acc :: "int \<Rightarrow> string \<Rightarrow> int" where
  "digits_acc n [] = n"
| "digits_acc n (c # cs) = digits_acc (10 * n + digit_val c) cs"

definition digits_val :: "string \<Rightarrow> int" where
  "digits_val ds = digits_acc 0 ds"

definition has_sign :: "string \<Rightarrow> bool" where
  "has_sign s = (case s of [] \<Rightarrow> False | c # _ \<Rightarrow> c = CHR ''-'' \<or> c = CHR ''+'')"

definition is_negative :: "string \<Rightarrow> bool" where
  "is_negative s = (case s of [] \<Rightarrow> False | c # _ \<Rightarrow> c = CHR ''-'')"

text \<open>
  \<^verbatim>\<open>parseInt(string, 10)\<close>: skip leading white space, read an optional sign, take the
  longest run of decimal digits and ignore whatever follows; no digit gives \<^verbatim>\<open>NaN\<close>.
\<close>

definition parseInt_10 :: "string \<Rightarrow> jsnum" where
  "parseInt_10 str =
     (let s = dropWhile is_ws str;
          body = (if has_sign s then tl s else s);
          z = takeWhile is_digit body
      in if z = [] then NaN
         else if is_negative s then fneg (rnd (of_int (digits_val z)))
         else rnd (of_int (digits_val z)))"

definition pow10 :: "int \<Rightarrow> rat" where
  "pow10 k = (if 0 \<le> k then 10 ^ nat k else 1 / 10 ^ nat (- k))"

text \<open>
  The exponent part of a decimal literal: \<^verbatim>\<open>e\<close> or \<^verbatim>\<open>E\<close>, an optional sign and at
  least one digit; an incomplete exponent is not part of the literal.
\<close>

definition exponent_part :: "string \<Rightarrow> int" where
  "exponent_part r =
     (case r of
        [] \<Rightarrow> 0
      | c # r' \<Rightarrow>
          if c = CHR ''e'' \<or> c = CHR ''E'' then
            (let ds = takeWhile is_digit (if has_sign r' then tl r' else r')
             in if ds = [] then 0
                else if is_negative r' then - digits_val ds
                else digits_val ds)
          else 0)"

text \<open>
  \<^verbatim>\<open>parseFloat(string)\<close>: skip leading white space, read the longest prefix that is a
  decimal literal (sign, \<^verbatim>\<open>Infinity\<close> or digits with an optional fraction and exponent) and
  round its value; no such prefix gives \<^verbatim>\<open>NaN\<close>.
\<close>

definition parseFloat_unsigned :: "string \<Rightarrow> jsnum" where
  "parseFloat_unsigned body =
     (if take 8 body = ''Infinity'' then PosInf
      else
        let ip = takeWhile is_digit body;
            r1 = dropWhile is_digit body;
            dot = (r1 \<noteq> [] \<and> hd r1 = CHR ''.'');
            fp = (if dot then takeWhile is_digit (tl r1) else []);
            r2 = (if dot then dropWhile is_digit (tl r1) else r1)
        in if ip = [] \<and> fp = [] then NaN
           else rnd ((of_int (digits_val ip) + of_int (digits_val fp) / 10 ^ length fp)
                       * pow10 (exponent_part r2)))"

definition parseFloat :: "string \<Rightarrow> jsnum" where
  "parseFloat str =
     (let s = dropWhile is_ws str;
          v = parseFloat_unsigned (if has_sign s then tl s else s)
      in if is_negative s then fneg v else v)"

section \<open>The usage ledger\<close>

text \<open>
  A numeric field of a usage item holds a Number, or \<^verbatim>\<open>null\<close> once the item has been
  through JSON. In arithmetic \<^verbatim>\<open>null\<close> converts to 0.
\<close>

datatype jsval = Null | Num jsnum

fun ToNumber :: "jsval \<Rightarrow> jsnum" where
  "ToNumber Null = Fin 0"
| "ToNumber (Num n) = n"

text \<open>
  A usage item. The field \<^verbatim>\<open>id\<close> is \<^verbatim>\<open>Date.now()\<close>, a whole number of milliseconds.
  The state of the component follows; the tip and the active tab, which no operation on
  the ledger reads or writes, are left out.
\<close>

record entry =
  id_item :: int
  name :: string
  watts :: jsval
  hours :: jsval
  kWh :: jsval

record app_state =
  usageItems :: "entry list"
  newAppliance :: string
  newWatts :: string
  newHours :: string
  totalKwh :: jsnum
  comparisonPercentage :: jsnum
  isSaved :: bool

definition US_AVERAGE_KWH :: jsnum where
  "US_AVERAGE_KWH = Fin 30"

text \<open>The state of the component when it mounts (the \<^verbatim>\<open>useState\<close> initial values).\<close>

definition initial_state :: app_state where
  "initial_state =
     \<lparr> usageItems = [], newAppliance = ''Refrigerator'', newWatts = ''150'',
       newHours = ''24'', totalKwh = Fin 0, comparisonPercentage = Fin 0,
       isSaved = False \<rparr>"

text \<open>
  \<^verbatim>\<open>handleAddAppliance\<close>: the new item is built from the form fields and the clock
  (\<open>now\<close> is the value of \<^verbatim>\<open>Date.now()\<close>) and appended; the hours field is reset to 24.
\<close>

definition newItem :: "int \<Rightarrow> app_state \<Rightarrow> entry" where
  "newItem now s =
     \<lparr> id_item = now,
       name = newAppliance s,
       watts = Num (parseInt_10 (newWatts s)),
       hours = Num (parseFloat (newHours s)),
       kWh = Num (fdiv (fmul (parseInt_10 (newWatts s)) (parseFloat (newHours s))) (Fin 1000)) \<rparr>"

definition handleAddAppliance :: "int \<Rightarrow> app_state \<Rightarrow> app_state" where
  "handleAddAppliance now s =
     s\<lparr> usageItems := usageItems s @ [newItem now s], newHours := ''24'' \<rparr>"

text \<open>\<^verbatim>\<open>handleDeleteItem\<close>: keep the items whose id differs.\<close>

definition handleDeleteItem :: "int \<Rightarrow> app_state \<Rightarrow> app_state" where
  "handleDeleteItem ident s =
     s\<lparr> usageItems := filter (\<lambda>item. id_item item \<noteq> ident) (usageItems s) \<rparr>"

text \<open>
  The effect that runs whenever \<^verbatim>\<open>usageItems\<close> has changed: the total is a
  left-to-right \<^verbatim>\<open>reduce\<close> from 0 over \<^verbatim>\<open>(item.watts * item.hours) / 1000\<close>.
\<close>

definition total_of :: "entry list \<Rightarrow> jsnum" where
  "total_of items =
     foldl (\<lambda>sum item. fadd sum (fdiv (fmul (ToNumber (watts item)) (ToNumber (hours item))) (Fin 1000)))
       (Fin 0) items"

definition recompute :: "app_state \<Rightarrow> app_state" where
  "recompute s =
     (let total = total_of (usageItems s)
      in s\<lparr> totalKwh := total,
            comparisonPercentage := fmul (fdiv total US_AVERAGE_KWH) (Fin 100),
            isSaved := False \<rparr>)"

text \<open>
  \<^verbatim>\<open>getEfficiencyClass\<close>, and the message on the insights tab, whose four branches
  (Excellent, Good, about average, above average) are the four bands.
\<close>

definition getEfficiencyClass :: "app_state \<Rightarrow> string" where
  "getEfficiencyClass s =
     (if fle (comparisonPercentage s) (Fin 50) then ''text-green-500''
      else if fle (comparisonPercentage s) (Fin 80) then ''text-green-400''
      else if fle (comparisonPercentage s) (Fin 120) then ''text-yellow-500''
      else ''text-red-500'')"

datatype band = EXCELLENT | GOOD | AVERAGE | ABOVE_AVERAGE

definition insights_band :: "app_state \<Rightarrow> band" where
  "insights_band s =
     (if fle (comparisonPercentage s) (Fin 50) then EXCELLENT
      else if fle (comparisonPercentage s) (Fin 80) then GOOD
      else if fle (comparisonPercentage s) (Fin 120) then AVERAGE
      else ABOVE_AVERAGE)"

section \<open>Saving and loading\<close>

text \<open>
  \<^verbatim>\<open>localStorage\<close> holds, under the key \<^verbatim>\<open>wattsUpData\<close>, a string or nothing. The program
  does two things with the stored string: it tests it for truthiness and it hands it to
  \<^verbatim>\<open>JSON.parse\<close>. A stored string is therefore represented by what these two make of it:
  the empty string; a non-empty string that is not JSON text; or the JSON text of an array
  of usage items, given by the items that \<^verbatim>\<open>JSON.parse\<close> returns for it. JSON text of any
  other shape is outside the model.
\<close>

datatype js_error = SyntaxError | TypeError

datatype stored_text = EmptyString | NotJSON | ItemsJSON "entry list"

type_synonym localStorage = "stored_text option"

fun truthy :: "stored_text \<Rightarrow> bool" where
  "truthy EmptyString = False"
| "truthy NotJSON = True"
| "truthy (ItemsJSON _) = True"

fun JSON_parse :: "stored_text \<Rightarrow> js_error + entry list" where
  "JSON_parse EmptyString = Inl SyntaxError"
| "JSON_parse NotJSON = Inl SyntaxError"
| "JSON_parse (ItemsJSON items) = Inr items"

text \<open>
  \<^verbatim>\<open>JSON.stringify\<close> writes a finite Number as a decimal literal that reads back as the same
  Number, and writes \<^verbatim>\<open>null\<close> for \<^verbatim>\<open>NaN\<close> and the infinities; ids and names read back
  as they were.
\<close>

fun json_value :: "jsval \<Rightarrow> jsval" where
  "json_value (Num (Fin x)) = Num (Fin x)"
| "json_value (Num _) = Null"
| "json_value Null = Null"

definition json_item :: "entry \<Rightarrow> entry" where
  "json_item e =
     e\<lparr> watts := json_value (watts e), hours := json_value (hours e),
        kWh := json_value (kWh e) \<rparr>"

definition JSON_stringify :: "entry list \<Rightarrow> stored_text" where
  "JSON_stringify items = ItemsJSON (map json_item items)"

text \<open>\<^verbatim>\<open>saveData\<close> (the timer that later clears the indicator is not part of the model).\<close>

definition saveData :: "app_state \<Rightarrow> localStorage \<Rightarrow> app_state \<times> localStorage" where
  "saveData s store = (s\<lparr> isSaved := True \<rparr>, Some (JSON_stringify (usageItems s)))"

text \<open>
  The effect that runs once when the component mounts. The source has no
  \<^verbatim>\<open>try\<close>/\<^verbatim>\<open>catch\<close>: what \<^verbatim>\<open>JSON.parse\<close> throws leaves the effect.
\<close>

definition load_effect :: "localStorage \<Rightarrow> app_state \<Rightarrow> js_error + app_state" where
  "load_effect savedData s =
     (case savedData of
        None \<Rightarrow> Inr s
      | Some text \<Rightarrow>
          if truthy text then
            (case JSON_parse text of
               Inl err \<Rightarrow> Inl err
             | Inr items \<Rightarrow> Inr (s\<lparr> usageItems := items \<rparr>))
          else Inr s)"

text \<open>
  Rendering the calculator tab, the tab shown when the component mounts: every row of
  the table is formatted with \<^verbatim>\<open>item.kWh.toFixed(2)\<close>, which throws a
  \<^verbatim>\<open>TypeError\<close> when \<^verbatim>\<open>kWh\<close> is \<^verbatim>\<open>null\<close>. Nothing else in the render throws:
  \<^verbatim>\<open>name\<close>, \<^verbatim>\<open>watts\<close> and \<^verbatim>\<open>hours\<close> are shown as they are, and the total is always
  a Number.
\<close>

definition render_error :: "app_state \<Rightarrow> js_error option" where
  "render_error s =
     (if list_ex (\<lambda>item. kWh item = Null) (usageItems s) then Some TypeError else None)"

text \<open>
  Mounting: the load effect on the initial state, the render of the loaded items, then
  the recomputation. An error thrown by an effect or by the render unmounts the
  component (there is no error boundary), so the later steps do not run.
\<close>

definition mount :: "localStorage \<Rightarrow> js_error + app_state" where
  "mount store =
     (case load_effect store initial_state of
        Inl err \<Rightarrow> Inl err
      | Inr s \<Rightarrow>
          (case render_error s of
             Some err \<Rightarrow> Inl err
           | None \<Rightarrow> Inr (recompute s)))"

section \<open>Notions used in the statements\<close>

text \<open>An item whose stored \<^verbatim>\<open>kWh\<close> is what the total recomputes from its watts and hours.\<close>

definition kWh_consistent :: "entry \<Rightarrow> bool" where
  "kWh_consistent e =
     (ToNumber (kWh e) = fdiv (fmul (ToNumber (watts e)) (ToNumber (hours e))) (Fin 1000))"

definition ledger_consistent :: "entry list \<Rightarrow> bool" where
  "ledger_consistent items = (\<forall>e \<in> set items. kWh_consistent e)"

text \<open>A field that holds a finite Number.\<close>

fun finite_field :: "jsval \<Rightarrow> bool" where
  "finite_field (Num (Fin _)) = True"
| "finite_field _ = False"

definition all_finite :: "entry list \<Rightarrow> bool" where
  "all_finite items =
     (\<forall>e \<in> set items. finite_field (watts e) \<and> finite_field (hours e) \<and> finite_field (kWh e))"

text \<open>
  Plain decimal notation: an optional minus sign, the integer digits \<open>ip\<close>, a point and
  the fraction digits \<open>fp\<close>, with no exponent; the number such a text denotes, and
  truncation towards zero.
\<close>

definition all_digits :: "string \<Rightarrow> bool" where
  "all_digits ds = (\<forall>c \<in> set ds. is_digit c)"

definition decimal_text :: "bool \<Rightarrow> string \<Rightarrow> string \<Rightarrow> string" where
  "decimal_text neg ip fp = (if neg then ''-'' else []) @ ip @ ''.'' @ fp"

definition decimal_value :: "bool \<Rightarrow> string \<Rightarrow> string \<Rightarrow> rat" where
  "decimal_value neg ip fp =
     (if neg then - 1 else 1) * (of_int (digits_val ip) + of_int (digits_val fp) / 10 ^ length fp)"

definition trunc :: "rat \<Rightarrow> int" where
  "trunc x = (if 0 \<le> x then \<lfloor>x\<rfloor> else \<lceil>x\<rceil>)"

section \<open>Concrete inputs\<close>

text \<open>The refrigerator of the form's initial values, added at some instant.\<close>

definition fridge :: entry where
  "fridge =
     \<lparr> id_item = 1746800000000, name = ''Refrigerator'', watts = Num (Fin 150),
       hours = Num (Fin 24), kWh = Num (Fin (8106479329266893 / 2251799813685248)) \<rparr>"

definition two_items :: app_state where
  "two_items = initial_state\<lparr> usageItems := [fridge, fridge\<lparr> id_item := 1746800000007 \<rparr>] \<rparr>"

definition with_percentage :: "jsnum \<Rightarrow> app_state" where
  "with_percentage p = initial_state\<lparr> comparisonPercentage := p \<rparr>"

text \<open>Three appliances of 100, 200 and 300 watts, one hour a day each.\<close>

definition one_hour :: "int \<Rightarrow> string \<Rightarrow> entry" where
  "one_hour now w = newItem now (initial_state\<lparr> newWatts := w, newHours := ''1'' \<rparr>)"

definition ledger_123 :: "entry list" where
  "ledger_123 = [one_hour 1 ''100'', one_hour 2 ''200'', one_hour 3 ''300'']"

text \<open>The form with the watts field, or the hours field, left empty.\<close>

definition blank_watts :: app_state where
  "blank_watts =
     recompute (handleAddAppliance 1746800000000 (initial_state\<lparr> newWatts := [] \<rparr>))"

definition blank_hours :: app_state where
  "blank_hours = initial_state\<lparr> newHours := [] \<rparr>"

text \<open>
  The form with the watts written \<^verbatim>\<open>1e3\<close>: the number 1000, which the watts field
  (\<^verbatim>\<open>type="number" min="1"\<close>, step 1) accepts.
\<close>

definition exponent_watts :: app_state where
  "exponent_watts = initial_state\<lparr> newWatts := ''1e3'' \<rparr>"

section \<open>Evaluating the model\<close>

lemma floor_rat_numeral: "\<lfloor>numeral a / numeral b :: rat\<rfloor> = numeral a div numeral b"
  by (metis floor_divide_of_int_eq of_int_numeral)

lemma ceiling_rat_numeral: "\<lceil>numeral a / numeral b :: rat\<rceil> = - (- numeral a div numeral b)"
  by (metis ceiling_def floor_divide_of_int_eq minus_divide_left of_int_minus of_int_numeral)

lemmas num_eval = rnd_def round_pos_def exponent_of_def ilog2.simps round_half_even_def
  pow2_def Let_def floor_rat_numeral ceiling_rat_numeral

lemmas parse_eval = parseInt_10_def parseFloat_def parseFloat_unsigned_def exponent_part_def
  has_sign_def is_negative_def is_ws_def is_digit_def digits_val_def digit_val_def pow10_def

lemma rnd_zero: "rnd 0 = Fin 0"
  by (simp add: rnd_def)

lemma rnd_minus: "rnd (- x) = fneg (rnd x)"
proof -
  have "fneg (fneg y) = y" for y
    by (cases y) simp_all
  then show ?thesis
    by (simp add: rnd_def)
qed

lemma fmul_NaN_right: "fmul x NaN = NaN"
  by (cases x) simp_all

text \<open>The rounding at work: 0.1 + 0.2 is 0.30000000000000004, not the number nearest 0.3.\<close>

lemma tenth_plus_fifth:
  "rnd (1 / 10) = Fin (3602879701896397 / 36028797018963968) \<and>
   fadd (Fin (3602879701896397 / 36028797018963968)) (Fin (3602879701896397 / 18014398509481984)) =
     Fin (1351079888211149 / 4503599627370496) \<and>
   rnd (3 / 10) = Fin (5404319552844595 / 18014398509481984)"
  by (simp add: num_eval)

lemma fadd_commute: "fadd a b = fadd b a"
  by (cases a; cases b) (simp_all add: add.commute)

lemma usageItems_initial: "usageItems initial_state = []"
  by (simp add: initial_state_def)

lemma usageItems_recompute: "usageItems (recompute s) = usageItems s"
  by (simp add: recompute_def Let_def)

lemma totalKwh_recompute: "totalKwh (recompute s) = total_of (usageItems s)"
  by (simp add: recompute_def Let_def)

lemma newItem_fridge: "newItem 1746800000000 initial_state = fridge"
  by (simp add: newItem_def initial_state_def fridge_def parse_eval num_eval)

lemma one_hour_100:
  "one_hour n ''100'' =
     \<lparr> id_item = n, name = ''Refrigerator'', watts = Num (Fin 100), hours = Num (Fin 1),
       kWh = Num (Fin (3602879701896397 / 36028797018963968)) \<rparr>"
  by (simp add: one_hour_def newItem_def initial_state_def parse_eval num_eval)

lemma one_hour_200:
  "one_hour n ''200'' =
     \<lparr> id_item = n, name = ''Refrigerator'', watts = Num (Fin 200), hours = Num (Fin 1),
       kWh = Num (Fin (3602879701896397 / 18014398509481984)) \<rparr>"
  by (simp add: one_hour_def newItem_def initial_state_def parse_eval num_eval)

lemma one_hour_300:
  "one_hour n ''300'' =
     \<lparr> id_item = n, name = ''Refrigerator'', watts = Num (Fin 300), hours = Num (Fin 1),
       kWh = Num (Fin (5404319552844595 / 18014398509481984)) \<rparr>"
  by (simp add: one_hour_def newItem_def initial_state_def parse_eval num_eval)

text \<open>0.1 + 0.2 + 0.3 and 0.3 + 0.2 + 0.1, each summed from 0 as \<^verbatim>\<open>reduce\<close> does.\<close>

lemma total_123: "total_of ledger_123 = Fin (1351079888211149 / 2251799813685248)"
  by (simp add: ledger_123_def one_hour_100 one_hour_200 one_hour_300 total_of_def num_eval)

lemma total_321: "total_of (rev ledger_123) = Fin (5404319552844595 / 9007199254740992)"
  by (simp add: ledger_123_def one_hour_100 one_hour_200 one_hour_300 total_of_def num_eval)

lemma blank_watts_items:
  "usageItems blank_watts =
     [\<lparr> id_item = 1746800000000, name = ''Refrigerator'', watts = Num NaN,
        hours = Num (Fin 24), kWh = Num NaN \<rparr>]"
  by (simp add: blank_watts_def usageItems_recompute handleAddAppliance_def newItem_def
      initial_state_def parse_eval num_eval)

section \<open>Digits and decimal notation\<close>

lemma digit_val_range: "is_digit c \<Longrightarrow> 0 \<le> digit_val c \<and> digit_val c \<le> 9"
  by (simp add: is_digit_def digit_val_def)

lemma digit_not_sign: "is_digit c \<Longrightarrow> c \<noteq> CHR ''-'' \<and> c \<noteq> CHR ''+'' \<and> \<not> is_ws c"
  by (auto simp: is_digit_def is_ws_def)

lemma digits_acc_snoc: "digits_acc n (xs @ [c]) = 10 * digits_acc n xs + digit_val c"
  by (induction xs arbitrary: n) simp_all

lemma digits_val_range:
  "all_digits ds \<Longrightarrow> 0 \<le> digits_val ds \<and> digits_val ds < 10 ^ length ds"
proof (induction ds rule: rev_induct)
  case Nil
  then show ?case by (simp add: digits_val_def)
next
  case (snoc c cs)
  then have d: "0 \<le> digit_val c \<and> digit_val c \<le> 9"
    by (simp add: all_digits_def digit_val_range)
  have ih: "0 \<le> digits_val cs \<and> digits_val cs < 10 ^ length cs"
    using snoc by (simp add: all_digits_def)
  have "digits_val (cs @ [c]) = 10 * digits_val cs + digit_val c"
    by (simp add: digits_val_def digits_acc_snoc)
  with d ih show ?case
    by simp
qed

lemma fraction_range:
  assumes "all_digits fp"
  shows "0 \<le> (of_int (digits_val fp) / 10 ^ length fp :: rat) \<and>
         (of_int (digits_val fp) / 10 ^ length fp :: rat) < 1"
proof -
  from digits_val_range [OF assms]
  have a: "0 \<le> digits_val fp" and b: "digits_val fp < 10 ^ length fp"
    by simp_all
  have "(of_int (digits_val fp) :: rat) < of_int (10 ^ length fp)"
    using b by (simp only: of_int_less_iff)
  then have "(of_int (digits_val fp) :: rat) < 10 ^ length fp"
    by simp
  with a show ?thesis
    by simp
qed

text \<open>Truncating a number in decimal notation leaves its integer digits.\<close>

lemma trunc_decimal_value:
  assumes "all_digits ip" "all_digits fp"
  shows "trunc (decimal_value neg ip fp) = (if neg then - digits_val ip else digits_val ip)"
proof -
  let ?n = "digits_val ip"
  let ?f = "of_int (digits_val fp) / 10 ^ length fp :: rat"
  have n: "0 \<le> ?n"
    using digits_val_range [OF assms(1)] by simp
  have f: "0 \<le> ?f" "?f < 1"
    using fraction_range [OF assms(2)] by simp_all
  have fl: "\<lfloor>of_int ?n + ?f\<rfloor> = ?n"
    using f by (intro floor_unique) simp_all
  have nonneg: "0 \<le> of_int ?n + ?f"
    using n f by simp
  show ?thesis
  proof (cases neg)
    case False
    then show ?thesis
      using fl nonneg by (simp add: trunc_def decimal_value_def)
  next
    case True
    show ?thesis
    proof (cases "of_int ?n + ?f = 0")
      case z: True
      then have "?n = 0"
        using fl by simp
      with True z show ?thesis
        by (simp add: trunc_def decimal_value_def)
    next
      case False
      with nonneg have "\<not> 0 \<le> - (of_int ?n + ?f)"
        by simp
      with True fl show ?thesis
        by (simp add: trunc_def decimal_value_def ceiling_def)
    qed
  qed
qed

text \<open>\<^verbatim>\<open>parseInt\<close> stops at the point; \<^verbatim>\<open>parseFloat\<close> reads the whole text.\<close>

lemma parseInt_10_decimal_text:
  assumes "ip \<noteq> []" "all_digits ip"
  shows "parseInt_10 (decimal_text neg ip fp) =
           rnd (of_int (if neg then - digits_val ip else digits_val ip))"
proof -
  from assms obtain c cs where ip: "ip = c # cs" and c: "is_digit c"
    by (cases ip) (auto simp: all_digits_def)
  have tw: "takeWhile is_digit (ip @ CHR ''.'' # fp) = ip"
    using assms(2) by (simp add: all_digits_def takeWhile_append2 is_digit_def)
  show ?thesis
  proof (cases neg)
    case True
    have "parseInt_10 (CHR ''-'' # ip @ CHR ''.'' # fp) = fneg (rnd (of_int (digits_val ip)))"
      using tw assms(1) by (simp add: parseInt_10_def has_sign_def is_negative_def is_ws_def)
    with True show ?thesis
      by (simp add: decimal_text_def rnd_minus)
  next
    case False
    have "dropWhile is_ws (ip @ CHR ''.'' # fp) = ip @ CHR ''.'' # fp"
      using digit_not_sign [OF c] by (simp add: ip)
    moreover have "\<not> has_sign (ip @ CHR ''.'' # fp)" "\<not> is_negative (ip @ CHR ''.'' # fp)"
      using digit_not_sign [OF c] by (simp_all add: ip has_sign_def is_negative_def)
    ultimately have "parseInt_10 (ip @ CHR ''.'' # fp) = rnd (of_int (digits_val ip))"
      using tw assms(1) by (simp add: parseInt_10_def)
    with False show ?thesis
      by (simp add: decimal_text_def)
  qed
qed

text \<open>A whole number written in digits is stored as given.\<close>

lemma parseInt_10_whole_number:
  assumes "ip \<noteq> []" "all_digits ip"
  shows "parseInt_10 ip = rnd (of_int (digits_val ip))"
proof -
  from assms obtain c cs where ip: "ip = c # cs" and c: "is_digit c"
    by (cases ip) (auto simp: all_digits_def)
  have tw: "takeWhile is_digit ip = ip"
    using assms(2) by (simp add: all_digits_def)
  have dw: "dropWhile is_ws ip = ip"
    using digit_not_sign [OF c] by (simp add: ip)
  have sg: "\<not> has_sign ip" "\<not> is_negative ip"
    using digit_not_sign [OF c] by (simp_all add: ip has_sign_def is_negative_def)
  show ?thesis
    using assms(1) by (simp add: parseInt_10_def dw sg tw)
qed

lemma parseFloat_decimal_text:
  assumes "ip \<noteq> []" "all_digits ip" "all_digits fp"
  shows "parseFloat (decimal_text neg ip fp) = rnd (decimal_value neg ip fp)"
proof -
  from assms obtain c cs where ip: "ip = c # cs" and c: "is_digit c"
    by (cases ip) (auto simp: all_digits_def)
  have ci: "c \<noteq> CHR ''I''"
    using c by (auto simp: is_digit_def)
  have tw: "takeWhile is_digit (ip @ CHR ''.'' # fp) = ip"
    using assms(2) by (simp add: all_digits_def takeWhile_append2 is_digit_def)
  have dw: "dropWhile is_digit (ip @ CHR ''.'' # fp) = CHR ''.'' # fp"
    using assms(2) by (simp add: all_digits_def dropWhile_append2 is_digit_def)
  have tf: "takeWhile is_digit fp = fp" "dropWhile is_digit fp = []"
    using assms(3) by (simp_all add: all_digits_def)
  have ni: "take 8 (ip @ CHR ''.'' # fp) \<noteq> ''Infinity''"
    using ci by (simp add: ip)
  have u: "parseFloat_unsigned (ip @ CHR ''.'' # fp) = rnd (decimal_value False ip fp)"
    using assms(1)
    by (simp add: parseFloat_unsigned_def ni tw dw tf exponent_part_def pow10_def
        decimal_value_def Let_def del: take_append)
  show ?thesis
  proof (cases neg)
    case True
    have "parseFloat (CHR ''-'' # ip @ CHR ''.'' # fp) = fneg (rnd (decimal_value False ip fp))"
      using u by (simp add: parseFloat_def has_sign_def is_negative_def is_ws_def)
    moreover have "decimal_value True ip fp = - decimal_value False ip fp"
      by (simp add: decimal_value_def)
    ultimately show ?thesis
      using True by (simp add: decimal_text_def rnd_minus)
  next
    case False
    have "dropWhile is_ws (ip @ CHR ''.'' # fp) = ip @ CHR ''.'' # fp"
      using digit_not_sign [OF c] by (simp add: ip)
    moreover have "\<not> has_sign (ip @ CHR ''.'' # fp)" "\<not> is_negative (ip @ CHR ''.'' # fp)"
      using digit_not_sign [OF c] by (simp_all add: ip has_sign_def is_negative_def)
    ultimately have "parseFloat (ip @ CHR ''.'' # fp) = rnd (decimal_value False ip fp)"
      using u by (simp add: parseFloat_def)
    with False show ?thesis
      by (simp add: decimal_text_def)
  qed
qed

section \<open>Adding an appliance\<close>

text \<open>
  What the handler stores: the parsed watts and hours, and a \<^verbatim>\<open>kWh\<close> field computed
  from them when the item is built. The item is appended as built, and neither a later
  addition nor the removal of another id changes an item already in the ledger.
\<close>

lemma newItem_fields:
  "watts (newItem now s) = Num (parseInt_10 (newWatts s)) \<and>
   hours (newItem now s) = Num (parseFloat (newHours s)) \<and>
   kWh (newItem now s) =
     Num (fdiv (fmul (ToNumber (watts (newItem now s))) (ToNumber (hours (newItem now s))))
            (Fin 1000)) \<and>
   usageItems (recompute (handleAddAppliance now s)) = usageItems s @ [newItem now s] \<and>
   (\<forall>e \<in> set (usageItems s). e \<in> set (usageItems (recompute (handleAddAppliance now s)))) \<and>
   (\<forall>e \<in> set (usageItems s).
      id_item e \<noteq> i \<longrightarrow> e \<in> set (usageItems (recompute (handleDeleteItem i s))))"
  by (simp add: newItem_def handleAddAppliance_def handleDeleteItem_def recompute_def Let_def)

text \<open>Watts written as a whole number in digits are stored, and used for \<^verbatim>\<open>kWh\<close>, as given.\<close>

lemma whole_number_watts_kWh:
  assumes "ip \<noteq> []" "all_digits ip" "newWatts s = ip"
  shows "watts (newItem now s) = Num (rnd (of_int (digits_val ip))) \<and>
         kWh (newItem now s) =
           Num (fdiv (fmul (rnd (of_int (digits_val ip))) (parseFloat (newHours s))) (Fin 1000))"
  using assms by (simp add: newItem_def parseInt_10_whole_number)

text \<open>
  Claim C1 fails on the code for watts written with an exponent. The watts field accepts
  \<^verbatim>\<open>1e3\<close>, the number 1000; \<^verbatim>\<open>parseInt\<close> reads only the leading digit, so with
  24 hours the item is stored with 1 watt and 0.024 kWh, where 1000 watts times 24 hours
  divided by 1000 is 24 kWh. The hours, read by \<^verbatim>\<open>parseFloat\<close>, are stored as given.
\<close>

theorem C1_exponent_watts_misread:
  "parseFloat (newWatts exponent_watts) = Fin 1000 \<and>
   parseFloat (newHours exponent_watts) = Fin 24 \<and>
   newItem 1746800000000 exponent_watts =
     \<lparr> id_item = 1746800000000, name = ''Refrigerator'', watts = Num (Fin 1),
       hours = Num (Fin 24), kWh = Num (Fin (3458764513820541 / 144115188075855872)) \<rparr> \<and>
   fdiv (fmul (Fin 1000) (Fin 24)) (Fin 1000) = Fin 24 \<and>
   kWh (newItem 1746800000000 exponent_watts) \<noteq>
     Num (fdiv (fmul (Fin 1000) (Fin 24)) (Fin 1000))"
  by (simp add: exponent_watts_def initial_state_def newItem_def parse_eval num_eval)

text \<open>
  Claim C8, as the code has it. When the hours field does not parse to a number, nothing
  is substituted and nothing is rejected: the item is appended with \<^verbatim>\<open>hours\<close> and
  \<^verbatim>\<open>kWh\<close> both \<^verbatim>\<open>NaN\<close>. The value 24 is only what the hours field of the form is reset
  to after every addition.
\<close>

theorem C8_invalid_hours_stored_as_NaN:
  assumes "parseFloat (newHours s) = NaN"
  shows "hours (newItem now s) = Num NaN \<and> kWh (newItem now s) = Num NaN \<and>
         usageItems (handleAddAppliance now s) = usageItems s @ [newItem now s] \<and>
         newHours (handleAddAppliance now s) = ''24''"
  using assms by (simp add: newItem_def handleAddAppliance_def fmul_NaN_right)

theorem C8_invalid_hours_stored_as_NaN_witness:
  "parseFloat (newHours blank_hours) = NaN \<and>
   hours (newItem 1746800000000 blank_hours) = Num NaN \<and>
   kWh (newItem 1746800000000 blank_hours) = Num NaN \<and>
   newHours (handleAddAppliance 1746800000000 blank_hours) = ''24''"
proof -
  have h: "parseFloat (newHours blank_hours) = NaN"
    by (simp add: blank_hours_def initial_state_def parse_eval)
  from C8_invalid_hours_stored_as_NaN [OF h, of 1746800000000] h show ?thesis by simp
qed

text \<open>
  The claim as stated fails with the hours field empty and 150 watts: the stored hours
  are not 24 and the stored energy is not 150 * 24 / 1000.
\<close>

theorem C8_fallback_counterexample:
  "parseFloat (newHours blank_hours) = NaN \<and>
   hours (newItem 1746800000000 blank_hours) \<noteq> Num (Fin 24) \<and>
   watts (newItem 1746800000000 blank_hours) = Num (Fin 150) \<and>
   fdiv (fmul (Fin 150) (Fin 24)) (Fin 1000) = Fin (8106479329266893 / 2251799813685248) \<and>
   kWh (newItem 1746800000000 blank_hours) \<noteq> Num (fdiv (fmul (Fin 150) (Fin 24)) (Fin 1000))"
  by (simp add: blank_hours_def initial_state_def newItem_def parse_eval num_eval)

text \<open>
  Claim C9 fails on the code: the id is the clock reading, so two additions at the same
  millisecond give two items with the same id.
\<close>

theorem C9_same_instant_same_id:
  "map id_item (usageItems (recompute (handleAddAppliance 1746800000000
      (recompute (handleAddAppliance 1746800000000 initial_state))))) =
     [1746800000000, 1746800000000] \<and>
   \<not> distinct (map id_item (usageItems (recompute (handleAddAppliance 1746800000000
      (recompute (handleAddAppliance 1746800000000 initial_state))))))"
  by (simp add: usageItems_recompute handleAddAppliance_def newItem_def initial_state_def)

text \<open>
  Where \<^verbatim>\<open>parseInt\<close> does truncate: watts written in plain decimal notation, with at
  least one digit before the point and any digits, or none, after it. The stored watts
  are the number the text denotes truncated towards zero, and \<^verbatim>\<open>kWh\<close> is computed from
  the truncated value.
\<close>

lemma decimal_watts_truncated:
  assumes "ip \<noteq> []" "all_digits ip" "all_digits fp" "newWatts s = decimal_text neg ip fp"
  shows "parseFloat (newWatts s) = rnd (decimal_value neg ip fp) \<and>
         watts (newItem now s) = Num (rnd (of_int (trunc (decimal_value neg ip fp)))) \<and>
         kWh (newItem now s) =
           Num (fdiv (fmul (rnd (of_int (trunc (decimal_value neg ip fp))))
                  (parseFloat (newHours s))) (Fin 1000)) \<and>
         watts (newItem now s) = Num (parseInt_10 (newWatts s))"
  using assms
  by (simp add: newItem_def parseInt_10_decimal_text parseFloat_decimal_text trunc_decimal_value)


section \<open>Removing an appliance\<close>

lemma filter_absent:
  "i \<notin> id_item ` set xs \<Longrightarrow> filter (\<lambda>e. id_item e \<noteq> i) xs = xs"
  by (induction xs) auto

lemma filter_present:
  "i \<in> id_item ` set xs \<Longrightarrow> length (filter (\<lambda>e. id_item e \<noteq> i) xs) < length xs"
proof -
  assume "i \<in> id_item ` set xs"
  then obtain x where x: "x \<in> set xs" "id_item x = i"
    by auto
  then show ?thesis
    by (intro length_filter_less [of x]) simp_all
qed

text \<open>
  Claim C5. \<^verbatim>\<open>handleDeleteItem\<close> keeps exactly the items whose id differs, in their
  order: afterwards no item has the given id, and the ledger is shorter when the id was
  present. It is a total function (no error). When no item has the id, the item sequence
  and the recomputed total are unchanged.
\<close>

theorem C5_remove:
  "usageItems (handleDeleteItem i s) = filter (\<lambda>e. id_item e \<noteq> i) (usageItems s) \<and>
   (\<forall>e \<in> set (usageItems (handleDeleteItem i s)). id_item e \<noteq> i) \<and>
   (i \<in> id_item ` set (usageItems s) \<longrightarrow>
      length (usageItems (handleDeleteItem i s)) < length (usageItems s)) \<and>
   (i \<notin> id_item ` set (usageItems s) \<longrightarrow>
      usageItems (handleDeleteItem i s) = usageItems s \<and>
      totalKwh (recompute (handleDeleteItem i s)) = totalKwh (recompute s))"
proof -
  have u: "usageItems (handleDeleteItem i s) = filter (\<lambda>e. id_item e \<noteq> i) (usageItems s)"
    by (simp add: handleDeleteItem_def)
  show ?thesis
  proof (intro conjI impI)
    show "usageItems (handleDeleteItem i s) = filter (\<lambda>e. id_item e \<noteq> i) (usageItems s)"
      by (rule u)
    show "\<forall>e \<in> set (usageItems (handleDeleteItem i s)). id_item e \<noteq> i"
      by (simp add: u)
    show "length (usageItems (handleDeleteItem i s)) < length (usageItems s)"
      if "i \<in> id_item ` set (usageItems s)"
      using that by (simp add: u filter_present)
    show "usageItems (handleDeleteItem i s) = usageItems s"
      if "i \<notin> id_item ` set (usageItems s)"
      using that by (simp add: u filter_absent)
    show "totalKwh (recompute (handleDeleteItem i s)) = totalKwh (recompute s)"
      if "i \<notin> id_item ` set (usageItems s)"
      using that by (simp add: totalKwh_recompute u filter_absent)
  qed
qed

theorem C5_remove_witness:
  "1746800000000 \<in> id_item ` set (usageItems two_items) \<and>
   3 \<notin> id_item ` set (usageItems two_items) \<and>
   usageItems (handleDeleteItem 1746800000000 two_items) = [fridge\<lparr> id_item := 1746800000007 \<rparr>] \<and>
   length (usageItems (handleDeleteItem 1746800000000 two_items)) < length (usageItems two_items) \<and>
   usageItems (handleDeleteItem 3 two_items) = usageItems two_items \<and>
   totalKwh (recompute (handleDeleteItem 3 two_items)) = totalKwh (recompute two_items)"
proof -
  have p: "1746800000000 \<in> id_item ` set (usageItems two_items)"
    by (simp add: two_items_def fridge_def)
  have a: "3 \<notin> id_item ` set (usageItems two_items)"
    by (simp add: two_items_def fridge_def)
  have f: "filter (\<lambda>e. id_item e \<noteq> 1746800000000) (usageItems two_items) =
      [fridge\<lparr> id_item := 1746800000007 \<rparr>]"
    by (simp add: two_items_def fridge_def)
  have d: "usageItems (handleDeleteItem 1746800000000 two_items) =
      [fridge\<lparr> id_item := 1746800000007 \<rparr>]"
    using C5_remove [of 1746800000000 two_items] f by simp
  from C5_remove [of 1746800000000 two_items] C5_remove [of 3 two_items] p a d
  show ?thesis by blast
qed

section \<open>The total and the comparison\<close>

text \<open>Every item built by the form is consistent, and adding and removing keep a ledger so.\<close>

lemma newItem_consistent: "kWh_consistent (newItem now s)"
  by (simp add: kWh_consistent_def newItem_def)

lemma initial_consistent: "ledger_consistent (usageItems initial_state)"
  by (simp add: ledger_consistent_def initial_state_def)

lemma handleAddAppliance_consistent:
  "ledger_consistent (usageItems s) \<Longrightarrow>
   ledger_consistent (usageItems (handleAddAppliance now s))"
  by (simp add: ledger_consistent_def handleAddAppliance_def newItem_consistent)

lemma handleDeleteItem_consistent:
  "ledger_consistent (usageItems s) \<Longrightarrow>
   ledger_consistent (usageItems (handleDeleteItem i s))"
  by (simp add: ledger_consistent_def handleDeleteItem_def)

text \<open>
  Claim C2, as the code has it. For a ledger whose items hold the \<^verbatim>\<open>kWh\<close> that their
  watts and hours give (every item built by the form does), the total is the sum of the
  stored \<^verbatim>\<open>kWh\<close> values, added from 0 from left to right in ledger order, each addition
  rounded; it is 0 for the empty ledger. Nothing is said about another insertion order.
\<close>

theorem C2_total_is_sum_of_stored_kWh:
  assumes "ledger_consistent (usageItems s)"
  shows "totalKwh (recompute s) =
           foldl (\<lambda>sum e. fadd sum (ToNumber (kWh e))) (Fin 0) (usageItems s) \<and>
         totalKwh (recompute (s\<lparr> usageItems := [] \<rparr>)) = Fin 0"
proof -
  have "total_of (usageItems s) =
      foldl (\<lambda>sum e. fadd sum (ToNumber (kWh e))) (Fin 0) (usageItems s)"
    unfolding total_of_def
    using assms by (intro foldl_cong) (simp_all add: ledger_consistent_def kWh_consistent_def)
  then show ?thesis
    by (simp add: totalKwh_recompute total_of_def)
qed

theorem C2_total_is_sum_of_stored_kWh_witness:
  "ledger_consistent (usageItems (initial_state\<lparr> usageItems := ledger_123 \<rparr>)) \<and>
   totalKwh (recompute (initial_state\<lparr> usageItems := ledger_123 \<rparr>)) =
     foldl (\<lambda>sum e. fadd sum (ToNumber (kWh e))) (Fin 0) ledger_123"
proof -
  have c: "ledger_consistent (usageItems (initial_state\<lparr> usageItems := ledger_123 \<rparr>))"
    by (simp add: ledger_consistent_def ledger_123_def one_hour_def newItem_consistent)
  from C2_total_is_sum_of_stored_kWh [OF c] c show ?thesis by simp
qed

text \<open>
  The claim as stated fails for the insertion order: the same three items give
  0.6000000000000001 kWh in one order and 0.6 kWh in the reverse order.
\<close>

theorem C2_insertion_order_counterexample:
  "ledger_consistent ledger_123 \<and> ledger_consistent (rev ledger_123) \<and>
   mset (rev ledger_123) = mset ledger_123 \<and>
   totalKwh (recompute (initial_state\<lparr> usageItems := ledger_123 \<rparr>)) =
     Fin (1351079888211149 / 2251799813685248) \<and>
   totalKwh (recompute (initial_state\<lparr> usageItems := rev ledger_123 \<rparr>)) =
     Fin (5404319552844595 / 9007199254740992) \<and>
   totalKwh (recompute (initial_state\<lparr> usageItems := rev ledger_123 \<rparr>)) \<noteq>
     totalKwh (recompute (initial_state\<lparr> usageItems := ledger_123 \<rparr>))"
proof -
  have c: "ledger_consistent ledger_123"
    by (simp add: ledger_consistent_def ledger_123_def one_hour_def newItem_consistent)
  then have r: "ledger_consistent (rev ledger_123)"
    by (simp add: ledger_consistent_def)
  show ?thesis
    by (simp add: c r totalKwh_recompute total_123 total_321)
qed

text \<open>
  Claim C7. After the recomputation the comparison percentage is the total divided by
  \<^verbatim>\<open>US_AVERAGE_KWH\<close> and multiplied by 100, the total is the one of claim C2,
  \<^verbatim>\<open>US_AVERAGE_KWH\<close> is the constant 30, and the percentage of an empty ledger is 0.
\<close>

theorem C7_comparison_percentage:
  "comparisonPercentage (recompute s) =
     fmul (fdiv (totalKwh (recompute s)) US_AVERAGE_KWH) (Fin 100) \<and>
   totalKwh (recompute s) = total_of (usageItems s) \<and>
   US_AVERAGE_KWH = Fin 30 \<and>
   comparisonPercentage (recompute (s\<lparr> usageItems := [] \<rparr>)) = Fin 0"
  by (simp add: recompute_def Let_def US_AVERAGE_KWH_def total_of_def rnd_zero)

section \<open>The efficiency band\<close>

text \<open>
  Claim C6. The band shown on the insights tab depends on the comparison percentage
  only: at most 50 is EXCELLENT, otherwise at most 80 is GOOD, otherwise at most 120 is
  AVERAGE, and everything else (a larger number, \<^verbatim>\<open>NaN\<close>) is ABOVE_AVERAGE.
  \<^verbatim>\<open>getEfficiencyClass\<close> picks its colour by the same thresholds. Exactly 50 is EXCELLENT,
  exactly 80 is GOOD and exactly 120 is AVERAGE.
\<close>

theorem C6_efficiency_band:
  "insights_band s =
     (case comparisonPercentage s of
        Fin p \<Rightarrow> if p \<le> 50 then EXCELLENT else if p \<le> 80 then GOOD
                 else if p \<le> 120 then AVERAGE else ABOVE_AVERAGE
      | NegInf \<Rightarrow> EXCELLENT
      | _ \<Rightarrow> ABOVE_AVERAGE) \<and>
   getEfficiencyClass s =
     (case insights_band s of
        EXCELLENT \<Rightarrow> ''text-green-500'' | GOOD \<Rightarrow> ''text-green-400''
      | AVERAGE \<Rightarrow> ''text-yellow-500'' | ABOVE_AVERAGE \<Rightarrow> ''text-red-500'') \<and>
   insights_band s = insights_band (with_percentage (comparisonPercentage s)) \<and>
   insights_band (with_percentage (Fin 50)) = EXCELLENT \<and>
   insights_band (with_percentage (Fin 80)) = GOOD \<and>
   insights_band (with_percentage (Fin 120)) = AVERAGE"
  by (cases "comparisonPercentage s")
     (simp_all add: insights_band_def getEfficiencyClass_def with_percentage_def initial_state_def)

section \<open>Saving and loading the ledger\<close>

lemma json_value_id: "finite_field v \<Longrightarrow> json_value v = v"
  by (induction v rule: json_value.induct) simp_all

lemma json_item_id:
  "finite_field (watts e) \<Longrightarrow> finite_field (hours e) \<Longrightarrow> finite_field (kWh e) \<Longrightarrow>
   json_item e = e"
  by (simp add: json_item_def json_value_id)

lemma map_json_item_id: "all_finite items \<Longrightarrow> map json_item items = items"
  by (induction items) (simp_all add: all_finite_def json_item_id)

lemma all_finite_renders: "all_finite (usageItems s) \<Longrightarrow> render_error s = None"
  by (auto simp: render_error_def all_finite_def list_ex_iff)

text \<open>
  A ledger in which every watts, hours and \<^verbatim>\<open>kWh\<close> field is a finite number is restored
  as it was saved, with the same total.
\<close>

lemma round_trip_finite:
  assumes "all_finite (usageItems s)"
  shows "mount (snd (saveData s store)) =
           Inr (recompute (initial_state\<lparr> usageItems := usageItems s \<rparr>))"
proof -
  have "render_error (initial_state\<lparr> usageItems := usageItems s \<rparr>) = None"
    using assms by (simp add: all_finite_renders)
  with assms show ?thesis
    by (simp add: mount_def load_effect_def saveData_def JSON_stringify_def map_json_item_id)
qed

text \<open>
  Claim C3 fails on the code for the ledger made by adding an appliance with the watts
  field left empty: its watts and \<^verbatim>\<open>kWh\<close> are \<^verbatim>\<open>NaN\<close> and its total is \<^verbatim>\<open>NaN\<close>.
  Saving writes \<^verbatim>\<open>null\<close> for both, loading restores an item with watts and \<^verbatim>\<open>kWh\<close>
  \<^verbatim>\<open>null\<close>, and the render of that item throws a \<^verbatim>\<open>TypeError\<close>: the ledger that was
  saved is not restored and no total is computed.
\<close>

theorem C3_saved_NaN_not_restored:
  "usageItems blank_watts =
     [\<lparr> id_item = 1746800000000, name = ''Refrigerator'', watts = Num NaN,
        hours = Num (Fin 24), kWh = Num NaN \<rparr>] \<and>
   totalKwh blank_watts = NaN \<and>
   load_effect (snd (saveData blank_watts None)) initial_state =
     Inr (initial_state\<lparr> usageItems :=
       [\<lparr> id_item = 1746800000000, name = ''Refrigerator'', watts = Null,
          hours = Num (Fin 24), kWh = Null \<rparr>] \<rparr>) \<and>
   mount (snd (saveData blank_watts None)) = Inl TypeError"
proof -
  have t: "totalKwh blank_watts = total_of (usageItems blank_watts)"
    by (simp add: blank_watts_def totalKwh_recompute usageItems_recompute)
  show ?thesis
    by (simp add: t blank_watts_items mount_def load_effect_def saveData_def JSON_stringify_def
        json_item_def render_error_def total_of_def)
qed

text \<open>
  Claim C4, as the code has it. When the stored text is not empty and \<^verbatim>\<open>JSON.parse\<close>
  rejects it, the error leaves the load effect and the mount: it is not caught, and there
  is no fallback to an empty ledger. Only a missing key and the empty string, which the
  truthiness test keeps away from \<^verbatim>\<open>JSON.parse\<close>, leave the ledger as it was (empty on
  mount) without an error.
\<close>

theorem C4_parse_error_propagates:
  "(truthy text \<and> JSON_parse text = Inl err \<longrightarrow>
      load_effect (Some text) s = Inl err \<and> mount (Some text) = Inl err) \<and>
   load_effect None s = Inr s \<and>
   load_effect (Some EmptyString) s = Inr s \<and>
   mount None = Inr (recompute initial_state) \<and>
   mount (Some EmptyString) = Inr (recompute initial_state)"
  by (simp add: load_effect_def mount_def render_error_def usageItems_initial)

theorem C4_parse_error_propagates_witness:
  "truthy NotJSON \<and> JSON_parse NotJSON = Inl SyntaxError \<and>
   load_effect (Some NotJSON) two_items = Inl SyntaxError"
  using C4_parse_error_propagates [of NotJSON SyntaxError two_items] by simp

text \<open>
  The claim as stated fails for stored text that is not JSON: mounting ends with the
  \<^verbatim>\<open>SyntaxError\<close>, not with an empty ledger.
\<close>

theorem C4_malformed_counterexample:
  "mount (Some NotJSON) = Inl SyntaxError \<and>
   mount (Some NotJSON) \<noteq> Inr (recompute initial_state)"
  by (simp add: mount_def load_effect_def)

end
